theory Spec2Isabelle
  imports Complex_Main "HOL-Library.Monad_Syntax"
begin

section \<open>The nix manager: extraction of flake inputs from a flake.lock graph\<close>

text \<open>
  The development embeds \<^verbatim>\<open>lib/modules/manager/nix/schema.ts\<close> (the zod schema
  \<^verbatim>\<open>NixFlakeLock\<close>) and the two versions of \<^verbatim>\<open>extractPackageFile\<close>: the one that reads
  the sibling \<^verbatim>\<open>flake.lock\<close> (suffix \<open>_sibling\<close>) and the one that is handed the lock text
  itself (suffix \<open>_inline\<close>).

  Conventions of the embedding:
  \<^item> the first argument of both functions is the value they hand to
    \<^verbatim>\<open>NixFlakeLock.safeParse\<close>, a \<open>json\<close>; the schema is the bare \<^verbatim>\<open>z.object\<close>, which accepts
    a deserialised object and refuses anything else, a string included;
  \<^item> a JSON object is the list of its own properties in the order \<^verbatim>\<open>Object.keys\<close>
    enumerates them;
  \<^item> a property that is absent (reads as \<^verbatim>\<open>undefined\<close>) is \<open>None\<close>;
  \<^item> a thrown \<^verbatim>\<open>TypeError\<close> is \<open>Inl\<close>; a normal return is \<open>Inr\<close> of the returned value
    together with the entries written to the logger, oldest first;
  \<^item> strings are \<open>char list\<close>, a \<open>char\<close> standing for one UTF-16 code unit of the
    JavaScript string; the type holds the code units below 256, and strings with other
    code units are outside the model.
\<close>

subsection \<open>Deserialised values and the zod combinators used by the schema\<close>

datatype json =
    JNull
  | JBool bool
  | JNumber rat
  | JString string
  | JArray "json list"
  | JObject "(string \<times> json) list"

text \<open>\<^verbatim>\<open>z.string()\<close> and \<^verbatim>\<open>z.number()\<close>: the value must have that primitive type.\<close>

definition z_string :: "json \<Rightarrow> string option" where
  "z_string v = (case v of JString s \<Rightarrow> Some s | _ \<Rightarrow> None)"

definition z_number :: "json \<Rightarrow> rat option" where
  "z_number v = (case v of JNumber n \<Rightarrow> Some n | _ \<Rightarrow> None)"

text \<open>
  A key of \<^verbatim>\<open>z.object\<close>: a required key must be present and valid; with \<^verbatim>\<open>.optional()\<close>
  an absent key is accepted and stays absent. Keys the object schema does not name are
  stripped from the parsed value.
\<close>

definition z_required :: "(json \<Rightarrow> 'a option) \<Rightarrow> json option \<Rightarrow> 'a option" where
  "z_required p f = (case f of None \<Rightarrow> None | Some v \<Rightarrow> p v)"

definition z_optional :: "(json \<Rightarrow> 'a option) \<Rightarrow> json option \<Rightarrow> 'a option option" where
  "z_optional p f = (case f of None \<Rightarrow> Some None | Some v \<Rightarrow> map_option Some (p v))"

text \<open>
  \<^verbatim>\<open>z.record(z.string(), p)\<close>: an object all of whose property values are accepted by \<open>p\<close>.
  Every property is validated; the parsed object is then built by assignment, which
  leaves out a property named \<^verbatim>\<open>__proto__\<close>.
\<close>

definition z_record :: "(json \<Rightarrow> 'a option) \<Rightarrow> json \<Rightarrow> (string \<times> 'a) list option" where
  "z_record p v =
     (case v of
        JObject kvs \<Rightarrow>
          map_option (filter (\<lambda>(k, x). k \<noteq> ''__proto__''))
            (those (map (\<lambda>(k, x). map_option (Pair k) (p x)) kvs))
      | _ \<Rightarrow> None)"

subsection \<open>schema.ts\<close>

text \<open>\<^verbatim>\<open>const InputType = z.enum(['git', 'github', 'gitlab', 'indirect', 'sourcehut'])\<close>\<close>

definition InputType_values :: "string list" where
  "InputType_values = [''git'', ''github'', ''gitlab'', ''indirect'', ''sourcehut'']"

definition InputType :: "json \<Rightarrow> string option" where
  "InputType v =
     (case v of
        JString s \<Rightarrow> if s \<in> set InputType_values then Some s else None
      | _ \<Rightarrow> None)"

record LockedInput =
  locked_host :: "string option"
  locked_lastModified :: rat
  locked_narHash :: string
  locked_owner :: "string option"
  locked_repo :: "string option"
  locked_ref :: "string option"
  locked_rev :: string
  locked_revCount :: rat
  locked_type :: string
  locked_url :: "string option"

text \<open>
  \<^verbatim>\<open>OriginalInput\<close> has the keys owner, repo, ref, type and url. The extraction also reads
  \<^verbatim>\<open>flakeOriginal.host\<close>; the record carries that property as \<open>original_host\<close>, and the
  schema, which does not name it, leaves it absent.
\<close>

record OriginalInput =
  original_owner :: "string option"
  original_repo :: "string option"
  original_ref :: "string option"
  original_type :: string
  original_url :: "string option"
  original_host :: "string option"

record NixInput =
  inputs :: "(string \<times> string) list option"
  locked :: "LockedInput option"
  original :: "OriginalInput option"

record NixFlakeLock =
  nodes :: "(string \<times> NixInput) list"
  root :: string
  version :: rat

definition LockedInput :: "json \<Rightarrow> LockedInput option" where
  "LockedInput v =
     (case v of
        JObject obj \<Rightarrow>
          do {
            host \<leftarrow> z_optional z_string (map_of obj ''host'');
            lastModified \<leftarrow> z_required z_number (map_of obj ''lastModified'');
            narHash \<leftarrow> z_required z_string (map_of obj ''narHash'');
            owner \<leftarrow> z_optional z_string (map_of obj ''owner'');
            repo \<leftarrow> z_optional z_string (map_of obj ''repo'');
            ref \<leftarrow> z_optional z_string (map_of obj ''ref'');
            rev \<leftarrow> z_required z_string (map_of obj ''rev'');
            revCount \<leftarrow> z_required z_number (map_of obj ''revCount'');
            type \<leftarrow> z_required InputType (map_of obj ''type'');
            url \<leftarrow> z_optional z_string (map_of obj ''url'');
            Some \<lparr>locked_host = host, locked_lastModified = lastModified,
                  locked_narHash = narHash, locked_owner = owner, locked_repo = repo,
                  locked_ref = ref, locked_rev = rev, locked_revCount = revCount,
                  locked_type = type, locked_url = url\<rparr>
          }
      | _ \<Rightarrow> None)"

definition OriginalInput :: "json \<Rightarrow> OriginalInput option" where
  "OriginalInput v =
     (case v of
        JObject obj \<Rightarrow>
          do {
            owner \<leftarrow> z_optional z_string (map_of obj ''owner'');
            repo \<leftarrow> z_optional z_string (map_of obj ''repo'');
            ref \<leftarrow> z_optional z_string (map_of obj ''ref'');
            type \<leftarrow> z_required InputType (map_of obj ''type'');
            url \<leftarrow> z_optional z_string (map_of obj ''url'');
            Some \<lparr>original_owner = owner, original_repo = repo, original_ref = ref,
                  original_type = type, original_url = url, original_host = None\<rparr>
          }
      | _ \<Rightarrow> None)"

definition NixInput :: "json \<Rightarrow> NixInput option" where
  "NixInput v =
     (case v of
        JObject obj \<Rightarrow>
          do {
            i \<leftarrow> z_optional (z_record z_string) (map_of obj ''inputs'');
            l \<leftarrow> z_optional LockedInput (map_of obj ''locked'');
            oi \<leftarrow> z_optional OriginalInput (map_of obj ''original'');
            Some \<lparr>inputs = i, locked = l, original = oi\<rparr>
          }
      | _ \<Rightarrow> None)"

text \<open>\<^verbatim>\<open>NixFlakeLock.safeParse\<close>: \<open>None\<close> is \<^verbatim>\<open>success: false\<close>, \<open>Some\<close> carries \<^verbatim>\<open>data\<close>.\<close>

definition NixFlakeLock_safeParse :: "json \<Rightarrow> NixFlakeLock option" where
  "NixFlakeLock_safeParse v =
     (case v of
        JObject obj \<Rightarrow>
          do {
            n \<leftarrow> z_required (z_record NixInput) (map_of obj ''nodes'');
            r \<leftarrow> z_required z_string (map_of obj ''root'');
            ver \<leftarrow> z_required z_number (map_of obj ''version'');
            Some \<lparr>nodes = n, root = r, version = ver\<rparr>
          }
      | _ \<Rightarrow> None)"

subsection \<open>extract.ts: values shared by both versions\<close>

datatype error = TypeError string

record PackageDependency =
  depName :: string
  currentValue :: "string option"
  currentDigest :: string
  replaceString :: string
  datasource :: string
  packageName :: "string option"

record PackageFileContent =
  deps :: "PackageDependency list"

text \<open>
  The logger is a write-only observer. An entry is its level and its message; the
  metadata object (the file name) is the argument of the function and is left out.
\<close>

datatype log_level = LTrace | LDebug | LError

datatype log_message =
    Msg_extractPackageFile string
  | Msg_invalid_flake_lock
  | Msg_cannot_find_root_node
  | Msg_empty_flake_input NixInput
  | Msg_unknown_type string
  | Msg_unsupported_version

type_synonym log_entry = "log_level \<times> log_message"

text \<open>
  Modelled from the spec: the constant \<^verbatim>\<open>GitRefsDatasource.id\<close> lives in
  \<^verbatim>\<open>lib/modules/datasource/git-refs\<close>, which is not among the sources; the spec calls it the
  single fixed tag of the generic git-reference datasource.
\<close>

definition GitRefsDatasource_id :: string where
  "GitRefsDatasource_id = ''git-refs''"

text \<open>A template literal \<^verbatim>\<open>${x}\<close> prints an absent \<open>x\<close> as \<^verbatim>\<open>undefined\<close>.\<close>

definition template :: "string option \<Rightarrow> string" where
  "template x = (case x of None \<Rightarrow> ''undefined'' | Some s \<Rightarrow> s)"

text \<open>The operator \<^verbatim>\<open>x ?? d\<close>.\<close>

definition nullish :: "'a option \<Rightarrow> 'a \<Rightarrow> 'a" where
  "nullish x d = (case x of None \<Rightarrow> d | Some s \<Rightarrow> s)"

text \<open>
  The operator \<^verbatim>\<open>k in obj\<close> on an object built by the schema: true for an own property
  and for a property inherited from \<^verbatim>\<open>Object.prototype\<close>.
\<close>

definition Object_prototype_keys :: "string list" where
  "Object_prototype_keys =
     [''constructor'', ''__defineGetter__'', ''__defineSetter__'', ''hasOwnProperty'',
      ''__lookupGetter__'', ''__lookupSetter__'', ''isPrototypeOf'',
      ''propertyIsEnumerable'', ''toString'', ''valueOf'', ''__proto__'',
      ''toLocaleString'']"

definition js_in :: "string \<Rightarrow> (string \<times> 'a) list \<Rightarrow> bool" where
  "js_in k obj = (k \<in> set (map fst obj) \<or> k \<in> set Object_prototype_keys)"

subsection \<open>The tarball pattern\<close>

text \<open>
  \<^verbatim>\<open>^https://(?<domain>[^/]+)/(?<owner>[^/]+)/(?<repo>[^/]+)/archive/(?<rev>.+).tar.gz$\<close>

  The pattern is anchored at both ends, and each of the first three groups is a run of
  characters other than \<^verbatim>\<open>/\<close> that a \<^verbatim>\<open>/\<close> must follow, so a match, when there is one,
  is unique: the groups are cut at the first three slashes after the scheme, and what
  follows \<^verbatim>\<open>archive/\<close> must be at least one character, any character, \<^verbatim>\<open>tar\<close>, any
  character and \<^verbatim>\<open>gz\<close>, where "any character" (the unescaped dot) is any code unit but
  the four line terminators U+000A, U+000D, U+2028 and U+2029. Of these only the first
  two are code units below 256.
\<close>

definition line_terminator :: "char \<Rightarrow> bool" where
  "line_terminator c = (of_char c \<in> {0x0A, 0x0D, 0x2028, 0x2029 :: nat})"

definition strip_prefix :: "string \<Rightarrow> string \<Rightarrow> string option" where
  "strip_prefix p s = (if take (length p) s = p then Some (drop (length p) s) else None)"

definition split_segment :: "string \<Rightarrow> (string \<times> string) option" where
  "split_segment s =
     (let seg = takeWhile (\<lambda>c. c \<noteq> CHR ''/'') s;
          rest = dropWhile (\<lambda>c. c \<noteq> CHR ''/'') s
      in if seg = [] \<or> rest = [] then None else Some (seg, tl rest))"

definition rev_tail :: "string \<Rightarrow> string option" where
  "rev_tail t =
     (let n = length t
      in if 8 \<le> n \<and> (\<forall>c \<in> set t. \<not> line_terminator c)
            \<and> take 3 (drop (n - 6) t) = ''tar'' \<and> drop (n - 2) t = ''gz''
         then Some (take (n - 7) t) else None)"

text \<open>The named groups (domain, owner, repo, rev) of the match, if the string matches.\<close>

definition lockableHTTPTarballProtocol ::
    "string \<Rightarrow> (string \<times> string \<times> string \<times> string) option" where
  "lockableHTTPTarballProtocol s =
     do {
       r0 \<leftarrow> strip_prefix ''https://'' s;
       (domain, r1) \<leftarrow> split_segment r0;
       (owner, r2) \<leftarrow> split_segment r1;
       (repo, r3) \<leftarrow> split_segment r2;
       r4 \<leftarrow> strip_prefix ''archive/'' r3;
       rv \<leftarrow> rev_tail r4;
       Some (domain, owner, repo, rv)
     }"

text \<open>
  \<^verbatim>\<open>url.replace(lockableHTTPTarballProtocol, 'https://$<domain>/$<owner>/$<repo>')\<close>:
  the match is the whole string; a string that does not match is returned as it is.
\<close>

definition replace_tarball :: "string \<Rightarrow> string" where
  "replace_tarball s =
     (case lockableHTTPTarballProtocol s of
        None \<Rightarrow> s
      | Some (domain, owner, repo, rv) \<Rightarrow> ''https://'' @ domain @ ''/'' @ owner @ ''/'' @ repo)"

subsection \<open>extractPackageFile, reading the sibling flake.lock\<close>

text \<open>The \<^verbatim>\<open>switch (flakeLocked.type)\<close>: the record pushed, or \<open>None\<close> in the default case.\<close>

definition classify_sibling ::
    "string \<Rightarrow> LockedInput \<Rightarrow> OriginalInput \<Rightarrow> PackageDependency option" where
  "classify_sibling dn flakeLocked flakeOriginal =
     (if locked_type flakeLocked = ''github'' then
        Some \<lparr>depName = dn,
              currentValue = original_ref flakeOriginal,
              currentDigest = locked_rev flakeLocked,
              replaceString = locked_rev flakeLocked,
              datasource = GitRefsDatasource_id,
              packageName = Some (''https://'' @ nullish (original_host flakeOriginal) ''github.com''
                 @ ''/'' @ template (original_owner flakeOriginal)
                 @ ''/'' @ template (original_repo flakeOriginal))\<rparr>
      else if locked_type flakeLocked = ''gitlab'' then
        Some \<lparr>depName = dn,
              currentValue = original_ref flakeOriginal,
              currentDigest = locked_rev flakeLocked,
              replaceString = locked_rev flakeLocked,
              datasource = GitRefsDatasource_id,
              packageName = Some (''https://'' @ nullish (original_host flakeOriginal) ''gitlab.com''
                 @ ''/'' @ template (original_owner flakeOriginal)
                 @ ''/'' @ template (original_repo flakeOriginal))\<rparr>
      else if locked_type flakeLocked = ''git'' then
        Some \<lparr>depName = dn,
              currentValue = original_ref flakeOriginal,
              currentDigest = locked_rev flakeLocked,
              replaceString = locked_rev flakeLocked,
              datasource = GitRefsDatasource_id,
              packageName = original_url flakeOriginal\<rparr>
      else if locked_type flakeLocked = ''sourcehut'' then
        Some \<lparr>depName = dn,
              currentValue = original_ref flakeOriginal,
              currentDigest = locked_rev flakeLocked,
              replaceString = locked_rev flakeLocked,
              datasource = GitRefsDatasource_id,
              packageName = Some (''https://'' @ nullish (original_host flakeOriginal) ''git.sr.ht''
                 @ ''/'' @ template (original_owner flakeOriginal)
                 @ ''/'' @ template (original_repo flakeOriginal))\<rparr>
      else if locked_type flakeLocked = ''tarball'' then
        Some \<lparr>depName = dn,
              currentValue = locked_ref flakeLocked,
              currentDigest = locked_rev flakeLocked,
              replaceString = locked_rev flakeLocked,
              datasource = GitRefsDatasource_id,
              packageName = Some (replace_tarball (nullish (original_url flakeOriginal) []))\<rparr>
      else None)"

text \<open>
  One iteration of the loop over \<^verbatim>\<open>Object.keys(flakeLock.nodes)\<close>, on the pair of
  \<^verbatim>\<open>deps\<close> and the log. \<^verbatim>\<open>flakeLock.nodes['root'].inputs\<close> throws when the graph has no
  node named root.
\<close>

definition process_node_sibling ::
    "NixFlakeLock \<Rightarrow> string \<Rightarrow> PackageDependency list \<times> log_entry list
       \<Rightarrow> error + PackageDependency list \<times> log_entry list" where
  "process_node_sibling flakeLock dn st =
     (case st of (ds, logs) \<Rightarrow>
        if dn = ''root'' then Inr (ds, logs)
        else
          (case map_of (nodes flakeLock) ''root'' of
             None \<Rightarrow> Inl (TypeError ''Cannot read properties of undefined (reading 'inputs')'')
           | Some rootNode \<Rightarrow>
               if (case inputs rootNode of None \<Rightarrow> True | Some rootInputs \<Rightarrow> \<not> js_in dn rootInputs)
               then Inr (ds, logs @ [(LError, Msg_cannot_find_root_node)])
               else
                 (case map_of (nodes flakeLock) dn of
                    None \<Rightarrow> Inl (TypeError ''Cannot read properties of undefined (reading 'locked')'')
                  | Some flakeInput \<Rightarrow>
                      (case (locked flakeInput, original flakeInput) of
                         (Some flakeLocked, Some flakeOriginal) \<Rightarrow>
                           if original_type flakeOriginal = ''indirect'' then Inr (ds, logs)
                           else
                             (case classify_sibling dn flakeLocked flakeOriginal of
                                Some d \<Rightarrow> Inr (ds @ [d], logs)
                              | None \<Rightarrow>
                                  Inr (ds, logs @ [(LDebug, Msg_unknown_type (locked_type flakeLocked))]))
                       | _ \<Rightarrow> Inr (ds, logs @ [(LDebug, Msg_empty_flake_input flakeInput)])))))"

fun nodes_loop_sibling ::
    "NixFlakeLock \<Rightarrow> string list \<Rightarrow> PackageDependency list \<times> log_entry list
       \<Rightarrow> error + PackageDependency list \<times> log_entry list" where
  "nodes_loop_sibling flakeLock [] st = Inr st"
| "nodes_loop_sibling flakeLock (dn # dns) st =
     (case process_node_sibling flakeLock dn st of
        Inl e \<Rightarrow> Inl e
      | Inr st' \<Rightarrow> nodes_loop_sibling flakeLock dns st')"

text \<open>
  \<open>lockContents\<close> is what \<^verbatim>\<open>readLocalFile\<close> handed back and \<open>packageLockFile\<close> the name
  \<^verbatim>\<open>getSiblingFileName\<close> computed; both helpers are outside the sources.
\<close>

definition extractPackageFile_sibling ::
    "json \<Rightarrow> string \<Rightarrow> error + PackageFileContent option \<times> log_entry list" where
  "extractPackageFile_sibling lockContents packageLockFile =
     (let logs = [(LTrace, Msg_extractPackageFile packageLockFile)]
      in case NixFlakeLock_safeParse lockContents of
           None \<Rightarrow> Inr (None, logs @ [(LError, Msg_invalid_flake_lock)])
         | Some flakeLock \<Rightarrow>
             (case nodes_loop_sibling flakeLock (map fst (nodes flakeLock)) ([], logs) of
                Inl e \<Rightarrow> Inl e
              | Inr (ds, logs') \<Rightarrow>
                  Inr (if ds \<noteq> [] then Some \<lparr>deps = ds\<rparr> else None, logs')))"

subsection \<open>extractPackageFile, handed the lock content\<close>

text \<open>The chain of \<^verbatim>\<open>if\<close>/\<^verbatim>\<open>else if\<close>: the record pushed, or \<open>None\<close> in the final else.\<close>

definition classify_inline ::
    "string \<Rightarrow> LockedInput \<Rightarrow> OriginalInput \<Rightarrow> PackageDependency option" where
  "classify_inline dn flakeLocked flakeOriginal =
     (if locked_type flakeLocked = ''github'' then
        Some \<lparr>depName = dn,
              currentValue = original_ref flakeOriginal,
              currentDigest = locked_rev flakeLocked,
              replaceString = locked_rev flakeLocked,
              datasource = GitRefsDatasource_id,
              packageName = Some (''https://github.com/'' @ template (original_owner flakeOriginal)
                 @ ''/'' @ template (original_repo flakeOriginal))\<rparr>
      else if locked_type flakeLocked = ''gitlab'' then
        Some \<lparr>depName = dn,
              currentValue = original_ref flakeOriginal,
              currentDigest = locked_rev flakeLocked,
              replaceString = locked_rev flakeLocked,
              datasource = GitRefsDatasource_id,
              packageName = Some (''https://gitlab.com/'' @ template (original_owner flakeOriginal)
                 @ ''/'' @ template (original_repo flakeOriginal))\<rparr>
      else if original_type flakeOriginal = ''git'' then
        Some \<lparr>depName = dn,
              currentValue = original_ref flakeOriginal,
              currentDigest = locked_rev flakeLocked,
              replaceString = locked_rev flakeLocked,
              datasource = GitRefsDatasource_id,
              packageName = original_url flakeOriginal\<rparr>
      else if locked_type flakeLocked = ''sourcehut'' then
        Some \<lparr>depName = dn,
              currentValue = original_ref flakeOriginal,
              currentDigest = locked_rev flakeLocked,
              replaceString = locked_rev flakeLocked,
              datasource = GitRefsDatasource_id,
              packageName = Some (''https://git.sr.ht/'' @ template (original_owner flakeOriginal)
                 @ ''/'' @ template (original_repo flakeOriginal))\<rparr>
      else None)"

definition process_node_inline ::
    "NixFlakeLock \<Rightarrow> string \<Rightarrow> PackageDependency list \<times> log_entry list
       \<Rightarrow> error + PackageDependency list \<times> log_entry list" where
  "process_node_inline flakeLock dn st =
     (case st of (ds, logs) \<Rightarrow>
        if dn = ''root'' then Inr (ds, logs)
        else
          (case map_of (nodes flakeLock) dn of
             None \<Rightarrow> Inl (TypeError ''Cannot read properties of undefined (reading 'locked')'')
           | Some flakeInput \<Rightarrow>
               (case (locked flakeInput, original flakeInput) of
                  (Some flakeLocked, Some flakeOriginal) \<Rightarrow>
                    if original_type flakeOriginal = ''indirect'' then Inr (ds, logs)
                    else
                      (case classify_inline dn flakeLocked flakeOriginal of
                         Some d \<Rightarrow> Inr (ds @ [d], logs)
                       | None \<Rightarrow>
                           Inr (ds, logs @ [(LDebug, Msg_unknown_type (locked_type flakeLocked))]))
                | _ \<Rightarrow> Inr (ds, logs @ [(LDebug, Msg_empty_flake_input flakeInput)]))))"

fun nodes_loop_inline ::
    "NixFlakeLock \<Rightarrow> string list \<Rightarrow> PackageDependency list \<times> log_entry list
       \<Rightarrow> error + PackageDependency list \<times> log_entry list" where
  "nodes_loop_inline flakeLock [] st = Inr st"
| "nodes_loop_inline flakeLock (dn # dns) st =
     (case process_node_inline flakeLock dn st of
        Inl e \<Rightarrow> Inl e
      | Inr st' \<Rightarrow> nodes_loop_inline flakeLock dns st')"

definition extractPackageFile_inline ::
    "json \<Rightarrow> string \<Rightarrow> error + PackageFileContent option \<times> log_entry list" where
  "extractPackageFile_inline content packageFile =
     (let logs = [(LTrace, Msg_extractPackageFile packageFile)]
      in case NixFlakeLock_safeParse content of
           None \<Rightarrow> Inr (None, logs @ [(LDebug, Msg_invalid_flake_lock)])
         | Some flakeLock \<Rightarrow>
             if version flakeLock \<noteq> 7
             then Inr (None, logs @ [(LDebug, Msg_unsupported_version)])
             else
               (case nodes_loop_inline flakeLock (map fst (nodes flakeLock)) ([], logs) of
                  Inl e \<Rightarrow> Inl e
                | Inr (ds, logs') \<Rightarrow>
                    Inr (if ds \<noteq> [] then Some \<lparr>deps = ds\<rparr> else None, logs')))"

subsection \<open>Concrete lock graphs\<close>

definition example_locked :: "string \<Rightarrow> json" where
  "example_locked t =
     JObject [(''lastModified'', JNumber 1700000000), (''narHash'', JString ''sha256-AAAA''),
              (''ref'', JString ''v1''), (''rev'', JString ''abc123''),
              (''revCount'', JNumber 42), (''type'', JString t)]"

definition parsed_locked :: "string \<Rightarrow> LockedInput" where
  "parsed_locked t =
     \<lparr>locked_host = None, locked_lastModified = 1700000000, locked_narHash = ''sha256-AAAA'',
      locked_owner = None, locked_repo = None, locked_ref = Some ''v1'',
      locked_rev = ''abc123'', locked_revCount = 42, locked_type = t, locked_url = None\<rparr>"

definition github_original :: json where
  "github_original =
     JObject [(''owner'', JString ''foo''), (''repo'', JString ''bar''),
              (''ref'', JString ''main''), (''type'', JString ''github'')]"

definition parsed_github_original :: OriginalInput where
  "parsed_github_original =
     \<lparr>original_owner = Some ''foo'', original_repo = Some ''bar'', original_ref = Some ''main'',
      original_type = ''github'', original_url = None, original_host = None\<rparr>"

definition parsed_git_original :: OriginalInput where
  "parsed_git_original =
     \<lparr>original_owner = None, original_repo = None, original_ref = Some ''dev'',
      original_type = ''git'', original_url = None, original_host = None\<rparr>"

definition parsed_indirect_original :: OriginalInput where
  "parsed_indirect_original =
     \<lparr>original_owner = None, original_repo = None, original_ref = None,
      original_type = ''indirect'', original_url = None, original_host = None\<rparr>"

text \<open>
  A lock graph with a root node that itself carries github data, an indirect input
  \<open>reg\<close>, an empty input \<open>empty\<close>, a github input \<open>gh\<close> and a git input \<open>g\<close> whose
  original has no url; \<open>flake_lock_version v\<close> is that graph with format version \<open>v\<close>.
\<close>

definition flake_lock_version :: "rat \<Rightarrow> json" where
  "flake_lock_version v =
     JObject [(''nodes'', JObject [
        (''root'', JObject [
           (''inputs'', JObject [(''gh'', JString ''gh''), (''reg'', JString ''reg''),
                                (''empty'', JString ''empty''), (''g'', JString ''g'')]),
           (''locked'', example_locked ''github''),
           (''original'', github_original)]),
        (''reg'', JObject [
           (''locked'', example_locked ''github''),
           (''original'', JObject [(''id'', JString ''nixpkgs''), (''type'', JString ''indirect'')])]),
        (''empty'', JObject []),
        (''gh'', JObject [
           (''locked'', example_locked ''github''),
           (''original'', github_original)]),
        (''g'', JObject [
           (''locked'', example_locked ''git''),
           (''original'', JObject [(''ref'', JString ''dev''), (''type'', JString ''git'')])])]),
      (''root'', JString ''root''),
      (''version'', JNumber v)]"

definition flake_lock :: json where
  "flake_lock = flake_lock_version 7"

definition parsed_root_inputs :: "(string \<times> string) list" where
  "parsed_root_inputs = [(''gh'', ''gh''), (''reg'', ''reg''), (''empty'', ''empty''), (''g'', ''g'')]"

definition parsed_root_node :: NixInput where
  "parsed_root_node =
     \<lparr>inputs = Some parsed_root_inputs, locked = Some (parsed_locked ''github''),
      original = Some parsed_github_original\<rparr>"

definition parsed_reg_node :: NixInput where
  "parsed_reg_node =
     \<lparr>inputs = None, locked = Some (parsed_locked ''github''),
      original = Some parsed_indirect_original\<rparr>"

definition parsed_empty_node :: NixInput where
  "parsed_empty_node = \<lparr>inputs = None, locked = None, original = None\<rparr>"

definition parsed_gh_node :: NixInput where
  "parsed_gh_node =
     \<lparr>inputs = None, locked = Some (parsed_locked ''github''),
      original = Some parsed_github_original\<rparr>"

definition parsed_g_node :: NixInput where
  "parsed_g_node =
     \<lparr>inputs = None, locked = Some (parsed_locked ''git''),
      original = Some parsed_git_original\<rparr>"

definition parsed_flake_lock_version :: "rat \<Rightarrow> NixFlakeLock" where
  "parsed_flake_lock_version v =
     \<lparr>nodes =
        [(''root'', parsed_root_node), (''reg'', parsed_reg_node), (''empty'', parsed_empty_node),
         (''gh'', parsed_gh_node), (''g'', parsed_g_node)],
      root = ''root'', version = v\<rparr>"

definition parsed_flake_lock :: NixFlakeLock where
  "parsed_flake_lock = parsed_flake_lock_version 7"

definition gh_record :: PackageDependency where
  "gh_record =
     \<lparr>depName = ''gh'', currentValue = Some ''main'', currentDigest = ''abc123'',
      replaceString = ''abc123'', datasource = GitRefsDatasource_id,
      packageName = Some ''https://github.com/foo/bar''\<rparr>"

definition g_record :: PackageDependency where
  "g_record =
     \<lparr>depName = ''g'', currentValue = Some ''dev'', currentDigest = ''abc123'',
      replaceString = ''abc123'', datasource = GitRefsDatasource_id,
      packageName = None\<rparr>"

definition flake_lock_log :: "log_entry list" where
  "flake_lock_log =
     [(LTrace, Msg_extractPackageFile ''flake.lock''),
      (LDebug, Msg_empty_flake_input parsed_empty_node)]"

text \<open>A graph whose only input is a tarball.\<close>

definition tarball_original :: json where
  "tarball_original =
     JObject [(''type'', JString ''tarball''),
              (''url'', JString ''https://example.org/o/r/archive/deadbeef.tar.gz'')]"

definition tarball_lock :: json where
  "tarball_lock =
     JObject [(''nodes'', JObject [
        (''root'', JObject [(''inputs'', JObject [(''src'', JString ''src'')])]),
        (''src'', JObject [(''locked'', example_locked ''tarball''),
                          (''original'', tarball_original)])]),
      (''root'', JString ''root''),
      (''version'', JNumber 7)]"

definition parsed_tarball_original :: OriginalInput where
  "parsed_tarball_original =
     \<lparr>original_owner = None, original_repo = None, original_ref = None,
      original_type = ''tarball'',
      original_url = Some ''https://example.org/o/r/archive/deadbeef.tar.gz'',
      original_host = None\<rparr>"

text \<open>A graph whose github input names a host of its own in \<^verbatim>\<open>original\<close>.\<close>

definition custom_host_lock :: json where
  "custom_host_lock =
     JObject [(''nodes'', JObject [
        (''root'', JObject [(''inputs'', JObject [(''dep'', JString ''dep'')])]),
        (''dep'', JObject [
           (''locked'', example_locked ''github''),
           (''original'', JObject [(''host'', JString ''git.example.org''),
              (''owner'', JString ''foo''), (''repo'', JString ''bar''),
              (''ref'', JString ''main''), (''type'', JString ''github'')])])]),
      (''root'', JString ''root''),
      (''version'', JNumber 7)]"

text \<open>A graph whose input is locked as git while its original says github.\<close>

definition git_locked_lock :: json where
  "git_locked_lock =
     JObject [(''nodes'', JObject [
        (''root'', JObject [(''inputs'', JObject [(''dep'', JString ''dep'')])]),
        (''dep'', JObject [
           (''locked'', example_locked ''git''),
           (''original'', github_original)])]),
      (''root'', JString ''root''),
      (''version'', JNumber 7)]"

text \<open>A graph with one input and no node named root.\<close>

definition no_root_lock :: json where
  "no_root_lock =
     JObject [(''nodes'', JObject [
        (''dep'', JObject [
           (''locked'', example_locked ''github''),
           (''original'', github_original)])]),
      (''root'', JString ''root''),
      (''version'', JNumber 7)]"

text \<open>
  A graph whose \<^verbatim>\<open>root\<close> field names the node \<open>main\<close> as its entrypoint; \<open>main\<close> carries
  github data of its own and has the input \<open>gh\<close>.
\<close>

definition named_root_lock :: json where
  "named_root_lock =
     JObject [(''nodes'', JObject [
        (''main'', JObject [
           (''inputs'', JObject [(''gh'', JString ''gh'')]),
           (''locked'', example_locked ''github''),
           (''original'', github_original)]),
        (''gh'', JObject [
           (''locked'', example_locked ''github''),
           (''original'', github_original)])]),
      (''root'', JString ''main''),
      (''version'', JNumber 7)]"

definition parsed_named_root_lock :: NixFlakeLock where
  "parsed_named_root_lock =
     \<lparr>nodes =
        [(''main'', \<lparr>inputs = Some [(''gh'', ''gh'')], locked = Some (parsed_locked ''github''),
                     original = Some parsed_github_original\<rparr>),
         (''gh'', parsed_gh_node)],
      root = ''main'', version = 7\<rparr>"

definition main_record :: PackageDependency where
  "main_record =
     \<lparr>depName = ''main'', currentValue = Some ''main'', currentDigest = ''abc123'',
      replaceString = ''abc123'', datasource = GitRefsDatasource_id,
      packageName = Some ''https://github.com/foo/bar''\<rparr>"




section \<open>Properties\<close>

subsection \<open>The loop over the nodes\<close>

lemma classify_inline_depName: "classify_inline dn l oi = Some d \<Longrightarrow> depName d = dn"
  by (auto simp: classify_inline_def split: if_splits)

lemma classify_sibling_depName: "classify_sibling dn l oi = Some d \<Longrightarrow> depName d = dn"
  by (auto simp: classify_sibling_def split: if_splits)

lemma process_node_inline_cases:
  assumes "process_node_inline fl dn (ds, logs) = Inr (ds', logs')"
  shows "ds' = ds \<or>
         (\<exists>n l oi d. dn \<noteq> ''root'' \<and> map_of (nodes fl) dn = Some n \<and> locked n = Some l
            \<and> original n = Some oi \<and> original_type oi \<noteq> ''indirect''
            \<and> classify_inline dn l oi = Some d \<and> ds' = ds @ [d])"
  using assms
  by (auto simp: process_node_inline_def split: if_splits option.splits)

lemma process_node_inline_emit:
  assumes "dn \<noteq> ''root''" "map_of (nodes fl) dn = Some n" "locked n = Some l"
    "original n = Some oi" "original_type oi \<noteq> ''indirect''" "classify_inline dn l oi = Some d"
  shows "process_node_inline fl dn (ds, logs) = Inr (ds @ [d], logs)"
  using assms by (simp add: process_node_inline_def)

lemma process_node_inline_total:
  assumes "dn \<in> fst ` set (nodes fl)"
  shows "\<exists>st'. process_node_inline fl dn st = Inr st'"
proof -
  from assms obtain n where "map_of (nodes fl) dn = Some n"
    by (metis domD dom_map_of_conv_image_fst)
  then show ?thesis
    by (cases st) (auto simp: process_node_inline_def split: option.splits)
qed

lemma nodes_loop_inline_total:
  "set dns \<subseteq> fst ` set (nodes fl) \<Longrightarrow> \<exists>st'. nodes_loop_inline fl dns st = Inr st'"
proof (induction dns arbitrary: st)
  case Nil
  then show ?case by simp
next
  case (Cons dn dns)
  then obtain st1 where "process_node_inline fl dn st = Inr st1"
    using process_node_inline_total[of dn fl st] by auto
  with Cons show ?case by simp
qed

lemma nodes_loop_inline_origin:
  assumes "nodes_loop_inline fl dns (ds, logs) = Inr (ds', logs')" "d \<in> set ds'"
  shows "d \<in> set ds \<or>
         (depName d \<in> set dns \<and> depName d \<noteq> ''root'' \<and>
          (\<exists>n l oi. map_of (nodes fl) (depName d) = Some n \<and> locked n = Some l
             \<and> original n = Some oi \<and> original_type oi \<noteq> ''indirect''
             \<and> classify_inline (depName d) l oi = Some d))"
  using assms
proof (induction dns arbitrary: ds logs)
  case Nil
  then show ?case by simp
next
  case (Cons dn dns)
  from Cons.prems(1) obtain ds1 logs1 where
    step: "process_node_inline fl dn (ds, logs) = Inr (ds1, logs1)" and
    rest: "nodes_loop_inline fl dns (ds1, logs1) = Inr (ds', logs')"
    by (auto split: sum.splits)
  from Cons.IH[OF rest Cons.prems(2)] consider
    (old) "d \<in> set ds1" | (new) "depName d \<in> set dns \<and> depName d \<noteq> ''root'' \<and>
          (\<exists>n l oi. map_of (nodes fl) (depName d) = Some n \<and> locked n = Some l
             \<and> original n = Some oi \<and> original_type oi \<noteq> ''indirect''
             \<and> classify_inline (depName d) l oi = Some d)"
    by blast
  then show ?case
  proof cases
    case old
    from process_node_inline_cases[OF step] old show ?thesis
      using classify_inline_depName by fastforce
  next
    case new
    then show ?thesis by simp
  qed
qed

lemma nodes_loop_inline_mono:
  "nodes_loop_inline fl dns (ds, logs) = Inr (ds', logs') \<Longrightarrow> set ds \<subseteq> set ds'"
proof (induction dns arbitrary: ds logs)
  case Nil
  then show ?case by simp
next
  case (Cons dn dns)
  from Cons.prems obtain ds1 logs1 where
    step: "process_node_inline fl dn (ds, logs) = Inr (ds1, logs1)" and
    rest: "nodes_loop_inline fl dns (ds1, logs1) = Inr (ds', logs')"
    by (auto split: sum.splits)
  from process_node_inline_cases[OF step] have "set ds \<subseteq> set ds1" by auto
  with Cons.IH[OF rest] show ?case by blast
qed

lemma nodes_loop_inline_emit:
  assumes "nodes_loop_inline fl dns (ds, logs) = Inr (ds', logs')" "dn \<in> set dns"
    "dn \<noteq> ''root''" "map_of (nodes fl) dn = Some n" "locked n = Some l"
    "original n = Some oi" "original_type oi \<noteq> ''indirect''" "classify_inline dn l oi = Some d"
  shows "d \<in> set ds'"
  using assms(1,2)
proof (induction dns arbitrary: ds logs)
  case Nil
  then show ?case by simp
next
  case (Cons k dns)
  from Cons.prems(1) obtain ds1 logs1 where
    step: "process_node_inline fl k (ds, logs) = Inr (ds1, logs1)" and
    rest: "nodes_loop_inline fl dns (ds1, logs1) = Inr (ds', logs')"
    by (auto split: sum.splits)
  show ?case
  proof (cases "k = dn")
    case True
    with step process_node_inline_emit[OF assms(3-8), of ds logs] have "ds1 = ds @ [d]" by simp
    then have "d \<in> set ds1" by simp
    with nodes_loop_inline_mono[OF rest] show ?thesis by blast
  next
    case False
    with Cons.prems(2) have "dn \<in> set dns" by simp
    from Cons.IH[OF rest this] show ?thesis .
  qed
qed


lemma process_node_sibling_cases:
  assumes "process_node_sibling fl dn (ds, logs) = Inr (ds', logs')"
  shows "ds' = ds \<or>
         (\<exists>rn ri n l oi d. dn \<noteq> ''root'' \<and> map_of (nodes fl) ''root'' = Some rn
            \<and> inputs rn = Some ri \<and> js_in dn ri
            \<and> map_of (nodes fl) dn = Some n \<and> locked n = Some l
            \<and> original n = Some oi \<and> original_type oi \<noteq> ''indirect''
            \<and> classify_sibling dn l oi = Some d \<and> ds' = ds @ [d])"
  using assms
  by (auto simp: process_node_sibling_def split: if_splits option.splits)

lemma process_node_sibling_emit:
  assumes "dn \<noteq> ''root''" "map_of (nodes fl) ''root'' = Some rn" "inputs rn = Some ri"
    "js_in dn ri" "map_of (nodes fl) dn = Some n" "locked n = Some l"
    "original n = Some oi" "original_type oi \<noteq> ''indirect''" "classify_sibling dn l oi = Some d"
  shows "process_node_sibling fl dn (ds, logs) = Inr (ds @ [d], logs)"
  using assms by (simp add: process_node_sibling_def)

lemma process_node_sibling_total:
  assumes "map_of (nodes fl) ''root'' = Some rn" "dn \<in> fst ` set (nodes fl)"
  shows "\<exists>st'. process_node_sibling fl dn st = Inr st'"
proof -
  from assms(2) obtain n where "map_of (nodes fl) dn = Some n"
    by (metis domD dom_map_of_conv_image_fst)
  with assms(1) show ?thesis
    by (cases st) (auto simp: process_node_sibling_def split: option.splits)
qed

lemma nodes_loop_sibling_total:
  assumes "map_of (nodes fl) ''root'' = Some rn"
  shows "set dns \<subseteq> fst ` set (nodes fl) \<Longrightarrow> \<exists>st'. nodes_loop_sibling fl dns st = Inr st'"
proof (induction dns arbitrary: st)
  case Nil
  then show ?case by simp
next
  case (Cons dn dns)
  then obtain st1 where "process_node_sibling fl dn st = Inr st1"
    using process_node_sibling_total[OF assms, of dn st] by auto
  with Cons show ?case by simp
qed

lemma nodes_loop_sibling_origin:
  assumes "nodes_loop_sibling fl dns (ds, logs) = Inr (ds', logs')" "d \<in> set ds'"
  shows "d \<in> set ds \<or>
         (depName d \<in> set dns \<and> depName d \<noteq> ''root'' \<and>
          (\<exists>rn ri n l oi. map_of (nodes fl) ''root'' = Some rn
             \<and> inputs rn = Some ri \<and> js_in (depName d) ri
             \<and> map_of (nodes fl) (depName d) = Some n \<and> locked n = Some l
             \<and> original n = Some oi \<and> original_type oi \<noteq> ''indirect''
             \<and> classify_sibling (depName d) l oi = Some d))"
  using assms
proof (induction dns arbitrary: ds logs)
  case Nil
  then show ?case by simp
next
  case (Cons dn dns)
  from Cons.prems(1) obtain ds1 logs1 where
    step: "process_node_sibling fl dn (ds, logs) = Inr (ds1, logs1)" and
    rest: "nodes_loop_sibling fl dns (ds1, logs1) = Inr (ds', logs')"
    by (auto split: sum.splits)
  from Cons.IH[OF rest Cons.prems(2)] consider
    (old) "d \<in> set ds1" | (new) "depName d \<in> set dns \<and> depName d \<noteq> ''root'' \<and>
          (\<exists>rn ri n l oi. map_of (nodes fl) ''root'' = Some rn
             \<and> inputs rn = Some ri \<and> js_in (depName d) ri
             \<and> map_of (nodes fl) (depName d) = Some n \<and> locked n = Some l
             \<and> original n = Some oi \<and> original_type oi \<noteq> ''indirect''
             \<and> classify_sibling (depName d) l oi = Some d)"
    by blast
  then show ?case
  proof cases
    case old
    from process_node_sibling_cases[OF step] old show ?thesis
      using classify_sibling_depName by fastforce
  next
    case new
    then show ?thesis by simp
  qed
qed

lemma nodes_loop_sibling_mono:
  "nodes_loop_sibling fl dns (ds, logs) = Inr (ds', logs') \<Longrightarrow> set ds \<subseteq> set ds'"
proof (induction dns arbitrary: ds logs)
  case Nil
  then show ?case by simp
next
  case (Cons dn dns)
  from Cons.prems obtain ds1 logs1 where
    step: "process_node_sibling fl dn (ds, logs) = Inr (ds1, logs1)" and
    rest: "nodes_loop_sibling fl dns (ds1, logs1) = Inr (ds', logs')"
    by (auto split: sum.splits)
  from process_node_sibling_cases[OF step] have "set ds \<subseteq> set ds1" by auto
  with Cons.IH[OF rest] show ?case by blast
qed

lemma nodes_loop_sibling_emit:
  assumes "nodes_loop_sibling fl dns (ds, logs) = Inr (ds', logs')" "dn \<in> set dns"
    "dn \<noteq> ''root''" "map_of (nodes fl) ''root'' = Some rn" "inputs rn = Some ri"
    "js_in dn ri" "map_of (nodes fl) dn = Some n" "locked n = Some l"
    "original n = Some oi" "original_type oi \<noteq> ''indirect''" "classify_sibling dn l oi = Some d"
  shows "d \<in> set ds'"
  using assms(1,2)
proof (induction dns arbitrary: ds logs)
  case Nil
  then show ?case by simp
next
  case (Cons k dns)
  from Cons.prems(1) obtain ds1 logs1 where
    step: "process_node_sibling fl k (ds, logs) = Inr (ds1, logs1)" and
    rest: "nodes_loop_sibling fl dns (ds1, logs1) = Inr (ds', logs')"
    by (auto split: sum.splits)
  show ?case
  proof (cases "k = dn")
    case True
    with step process_node_sibling_emit[OF assms(3-11), of ds logs] have "ds1 = ds @ [d]" by simp
    then have "d \<in> set ds1" by simp
    with nodes_loop_sibling_mono[OF rest] show ?thesis by blast
  next
    case False
    with Cons.prems(2) have "dn \<in> set dns" by simp
    from Cons.IH[OF rest this] show ?thesis .
  qed
qed

subsection \<open>What the schema guarantees of an accepted graph\<close>

lemma those_map_mem:
  "those (map f xs) = Some ys \<Longrightarrow> y \<in> set ys \<Longrightarrow> \<exists>x \<in> set xs. f x = Some y"
  by (induction xs arbitrary: ys) (auto split: option.splits)

lemma z_record_mem:
  assumes "z_record p v = Some kvs" "(k, a) \<in> set kvs"
  shows "\<exists>x. p x = Some a"
proof -
  from assms(1) obtain obj all where v: "v = JObject obj"
    and t: "those (map (\<lambda>(k, x). map_option (Pair k) (p x)) obj) = Some all"
    and f: "kvs = filter (\<lambda>(k, x). k \<noteq> ''__proto__'') all"
    by (auto simp: z_record_def split: json.splits)
  from f assms(2) have "(k, a) \<in> set all" by simp
  from those_map_mem[OF t this] show ?thesis by auto
qed

lemma InputType_mem: "InputType v = Some t \<Longrightarrow> t \<in> set InputType_values"
  by (auto simp: InputType_def split: json.splits if_splits)

lemma OriginalInput_host: "OriginalInput v = Some oi \<Longrightarrow> original_host oi = None"
  by (auto simp: OriginalInput_def split: json.splits Option.bind_splits)

lemma OriginalInput_type: "OriginalInput v = Some oi \<Longrightarrow> original_type oi \<in> set InputType_values"
  by (auto simp: OriginalInput_def z_required_def dest: InputType_mem split: json.splits Option.bind_splits option.splits)

lemma LockedInput_type: "LockedInput v = Some l \<Longrightarrow> locked_type l \<in> set InputType_values"
  by (auto simp: LockedInput_def z_required_def dest: InputType_mem split: json.splits Option.bind_splits option.splits)

lemma NixInput_parts:
  assumes "NixInput v = Some n"
  shows "(\<forall>l. locked n = Some l \<longrightarrow> locked_type l \<in> set InputType_values)
       \<and> (\<forall>oi. original n = Some oi \<longrightarrow> original_host oi = None \<and> original_type oi \<in> set InputType_values)"
  using assms
  by (auto simp: NixInput_def z_optional_def dest: LockedInput_type OriginalInput_type OriginalInput_host
      split: json.splits Option.bind_splits option.splits)

lemma safeParse_nodes:
  assumes "NixFlakeLock_safeParse c = Some fl" "map_of (nodes fl) k = Some n"
  shows "\<exists>v. NixInput v = Some n"
proof -
  from assms(1) obtain obj x where "z_record NixInput x = Some (nodes fl)"
    by (auto simp: NixFlakeLock_safeParse_def z_required_def split: json.splits Option.bind_splits option.splits)
  moreover from assms(2) have "(k, n) \<in> set (nodes fl)" by (rule map_of_SomeD)
  ultimately show ?thesis by (rule z_record_mem)
qed


lemma safeParse_locked_type:
  assumes "NixFlakeLock_safeParse c = Some fl" "map_of (nodes fl) k = Some n" "locked n = Some l"
  shows "locked_type l \<in> set InputType_values"
  using safeParse_nodes[OF assms(1,2)] NixInput_parts assms(3) by blast

lemma schema_excludes_tarball:
  assumes "NixFlakeLock_safeParse c = Some fl" "map_of (nodes fl) k = Some n" "locked n = Some l"
  shows "locked_type l \<noteq> ''tarball''"
  using safeParse_locked_type[OF assms] by (auto simp: InputType_values_def)

subsection \<open>The two functions as a whole\<close>

lemma map_of_key_mem: "map_of kvs k = Some v \<Longrightarrow> k \<in> set (map fst kvs)"
  by (metis map_of_eq_None_iff option.distinct(1) set_map)

lemma extract_sibling_origin:
  assumes "extractPackageFile_sibling c f = Inr (Some pfc, logs)" "d \<in> set (deps pfc)"
  shows "\<exists>fl. NixFlakeLock_safeParse c = Some fl \<and> depName d \<noteq> ''root'' \<and>
          (\<exists>rn ri n l oi. map_of (nodes fl) ''root'' = Some rn
             \<and> inputs rn = Some ri \<and> js_in (depName d) ri
             \<and> map_of (nodes fl) (depName d) = Some n \<and> locked n = Some l
             \<and> original n = Some oi \<and> original_type oi \<noteq> ''indirect''
             \<and> classify_sibling (depName d) l oi = Some d)"
proof -
  from assms(1) obtain fl where p: "NixFlakeLock_safeParse c = Some fl"
    by (auto simp: extractPackageFile_sibling_def Let_def split: option.splits)
  with assms(1) obtain ds where
    l: "nodes_loop_sibling fl (map fst (nodes fl)) ([], [(LTrace, Msg_extractPackageFile f)]) = Inr (ds, logs)"
    and "pfc = \<lparr>deps = ds\<rparr>"
    by (auto simp: extractPackageFile_sibling_def Let_def split: sum.splits if_splits)
  with assms(2) have "d \<in> set ds" by simp
  from nodes_loop_sibling_origin[OF l this] p show ?thesis by auto
qed

lemma extract_inline_origin:
  assumes "extractPackageFile_inline c f = Inr (Some pfc, logs)" "d \<in> set (deps pfc)"
  shows "\<exists>fl. NixFlakeLock_safeParse c = Some fl \<and> version fl = 7 \<and> depName d \<noteq> ''root'' \<and>
          (\<exists>n l oi. map_of (nodes fl) (depName d) = Some n \<and> locked n = Some l
             \<and> original n = Some oi \<and> original_type oi \<noteq> ''indirect''
             \<and> classify_inline (depName d) l oi = Some d)"
proof -
  from assms(1) obtain fl where p: "NixFlakeLock_safeParse c = Some fl" and v: "version fl = 7"
    by (auto simp: extractPackageFile_inline_def Let_def split: option.splits if_splits)
  with assms(1) obtain ds where
    l: "nodes_loop_inline fl (map fst (nodes fl)) ([], [(LTrace, Msg_extractPackageFile f)]) = Inr (ds, logs)"
    and "pfc = \<lparr>deps = ds\<rparr>"
    by (auto simp: extractPackageFile_inline_def Let_def split: sum.splits if_splits)
  with assms(2) have "d \<in> set ds" by simp
  from nodes_loop_inline_origin[OF l this] p v show ?thesis by auto
qed

lemma extract_sibling_total:
  assumes "NixFlakeLock_safeParse c = Some fl" "map_of (nodes fl) ''root'' = Some rn"
  shows "\<exists>r. extractPackageFile_sibling c f = Inr r"
proof -
  obtain st' where
    "nodes_loop_sibling fl (map fst (nodes fl)) ([], [(LTrace, Msg_extractPackageFile f)]) = Inr st'"
    using nodes_loop_sibling_total[OF assms(2), of "map fst (nodes fl)" "([], [(LTrace, Msg_extractPackageFile f)])"]
    by auto
  with assms(1) show ?thesis
    by (cases st') (simp add: extractPackageFile_sibling_def Let_def)
qed

lemma extract_inline_total: "\<exists>r. extractPackageFile_inline c f = Inr r"
proof (cases "NixFlakeLock_safeParse c")
  case None
  then show ?thesis by (simp add: extractPackageFile_inline_def Let_def)
next
  case (Some fl)
  obtain st' where
    "nodes_loop_inline fl (map fst (nodes fl)) ([], [(LTrace, Msg_extractPackageFile f)]) = Inr st'"
    using nodes_loop_inline_total[of "map fst (nodes fl)" fl "([], [(LTrace, Msg_extractPackageFile f)])"]
    by auto
  with Some show ?thesis
    by (cases st') (simp add: extractPackageFile_inline_def Let_def)
qed

lemma extract_sibling_emit:
  assumes "NixFlakeLock_safeParse c = Some fl"
    "dn \<noteq> ''root''" "map_of (nodes fl) ''root'' = Some rn" "inputs rn = Some ri"
    "js_in dn ri" "map_of (nodes fl) dn = Some n" "locked n = Some l"
    "original n = Some oi" "original_type oi \<noteq> ''indirect''" "classify_sibling dn l oi = Some d"
  shows "\<exists>ds logs. extractPackageFile_sibling c f = Inr (Some \<lparr>deps = ds\<rparr>, logs) \<and> d \<in> set ds"
proof -
  obtain ds logs where
    l: "nodes_loop_sibling fl (map fst (nodes fl)) ([], [(LTrace, Msg_extractPackageFile f)]) = Inr (ds, logs)"
    using nodes_loop_sibling_total[OF assms(3), of "map fst (nodes fl)" "([], [(LTrace, Msg_extractPackageFile f)])"]
    by auto
  have "dn \<in> set (map fst (nodes fl))" using assms(6) by (rule map_of_key_mem)
  from nodes_loop_sibling_emit[OF l this assms(2-10)] have d: "d \<in> set ds" .
  then have "ds \<noteq> []" by auto
  with l assms(1) have "extractPackageFile_sibling c f = Inr (Some \<lparr>deps = ds\<rparr>, logs)"
    by (simp add: extractPackageFile_sibling_def Let_def)
  with d show ?thesis by blast
qed

lemma extract_inline_emit:
  assumes "NixFlakeLock_safeParse c = Some fl" "version fl = 7"
    "dn \<noteq> ''root''" "map_of (nodes fl) dn = Some n" "locked n = Some l"
    "original n = Some oi" "original_type oi \<noteq> ''indirect''" "classify_inline dn l oi = Some d"
  shows "\<exists>ds logs. extractPackageFile_inline c f = Inr (Some \<lparr>deps = ds\<rparr>, logs) \<and> d \<in> set ds"
proof -
  obtain ds logs where
    l: "nodes_loop_inline fl (map fst (nodes fl)) ([], [(LTrace, Msg_extractPackageFile f)]) = Inr (ds, logs)"
    using nodes_loop_inline_total[of "map fst (nodes fl)" fl "([], [(LTrace, Msg_extractPackageFile f)])"]
    by auto
  have "dn \<in> set (map fst (nodes fl))" using assms(4) by (rule map_of_key_mem)
  from nodes_loop_inline_emit[OF l this assms(3-8)] have d: "d \<in> set ds" .
  then have "ds \<noteq> []" by auto
  with l assms(1,2) have "extractPackageFile_inline c f = Inr (Some \<lparr>deps = ds\<rparr>, logs)"
    by (simp add: extractPackageFile_inline_def Let_def)
  with d show ?thesis by blast
qed

lemma extract_sibling_throws:
  assumes "NixFlakeLock_safeParse c = Some fl" "map_of (nodes fl) ''root'' = None" "nodes fl \<noteq> []"
  shows "extractPackageFile_sibling c f =
           Inl (TypeError ''Cannot read properties of undefined (reading 'inputs')'')"
proof -
  from assms(3) obtain k n kvs where kv: "nodes fl = (k, n) # kvs" by (cases "nodes fl") auto
  with assms(2) have "k \<noteq> ''root''" by (auto split: if_splits)
  with assms(2) have "process_node_sibling fl k ([], [(LTrace, Msg_extractPackageFile f)]) =
      Inl (TypeError ''Cannot read properties of undefined (reading 'inputs')'')"
    by (simp add: process_node_sibling_def)
  with kv assms(1) show ?thesis
    by (simp add: extractPackageFile_sibling_def Let_def)
qed

subsection \<open>The tarball pattern on a matching url\<close>

lemma strip_prefix_append: "strip_prefix p (p @ s) = Some s"
  by (simp add: strip_prefix_def)

lemma split_segment_append:
  assumes "seg \<noteq> []" "CHR ''/'' \<notin> set seg"
  shows "split_segment (seg @ CHR ''/'' # rest) = Some (seg, rest)"
proof -
  have t: "takeWhile (\<lambda>c. c \<noteq> CHR ''/'') (seg @ CHR ''/'' # rest) = seg"
    using assms(2) by (subst takeWhile_append2) auto
  have d: "dropWhile (\<lambda>c. c \<noteq> CHR ''/'') (seg @ CHR ''/'' # rest) = CHR ''/'' # rest"
    using assms(2) by (subst dropWhile_append2) auto
  show ?thesis using assms(1) by (simp add: split_segment_def t d Let_def)
qed

lemma rev_tail_append:
  assumes "rv \<noteq> []" "\<forall>c \<in> set rv. \<not> line_terminator c"
  shows "rev_tail (rv @ ''.tar.gz'') = Some rv"
proof -
  let ?t = "rv @ ''.tar.gz''"
  have n: "length ?t = length rv + 7" by simp
  have l: "8 \<le> length ?t" using assms(1) by (cases rv) simp_all
  have "\<forall>c \<in> set ''.tar.gz''. \<not> line_terminator c"
    by (simp add: line_terminator_def)
  with assms(2) have a: "\<forall>c \<in> set ?t. \<not> line_terminator c"
    by auto
  have d6: "drop (length ?t - 6) ?t = ''tar.gz''" by simp
  have d2: "drop (length ?t - 2) ?t = ''gz''" by simp
  have t7: "take (length ?t - 7) ?t = rv" by simp
  have t3: "take 3 (drop (length ?t - 6) ?t) = ''tar''" unfolding d6 by simp
  show ?thesis
    unfolding rev_tail_def Let_def using l a t3 d2 t7 by presburger
qed

lemma lockableHTTPTarballProtocol_match:
  assumes "domain \<noteq> []" "CHR ''/'' \<notin> set domain"
    and "owner \<noteq> []" "CHR ''/'' \<notin> set owner"
    and "repo \<noteq> []" "CHR ''/'' \<notin> set repo"
    and "rv \<noteq> []" "\<forall>c \<in> set rv. \<not> line_terminator c"
  shows "lockableHTTPTarballProtocol
           (''https://'' @ (domain @ CHR ''/'' # (owner @ CHR ''/'' # (repo @ CHR ''/'' #
              (''archive/'' @ (rv @ ''.tar.gz''))))))
         = Some (domain, owner, repo, rv)"
  unfolding lockableHTTPTarballProtocol_def
  by (simp only: strip_prefix_append split_segment_append[OF assms(1,2)]
      split_segment_append[OF assms(3,4)] split_segment_append[OF assms(5,6)]
      rev_tail_append[OF assms(7,8)] Option.bind.bind_lunit prod.case)

lemma replace_tarball_match:
  assumes "domain \<noteq> []" "CHR ''/'' \<notin> set domain"
    and "owner \<noteq> []" "CHR ''/'' \<notin> set owner"
    and "repo \<noteq> []" "CHR ''/'' \<notin> set repo"
    and "rv \<noteq> []" "\<forall>c \<in> set rv. \<not> line_terminator c"
  shows "replace_tarball (''https://'' @ domain @ ''/'' @ owner @ ''/'' @ repo @ ''/archive/'' @ rv @ ''.tar.gz'')
           = ''https://'' @ domain @ ''/'' @ owner @ ''/'' @ repo"
proof -
  have e: "''https://'' @ domain @ ''/'' @ owner @ ''/'' @ repo @ ''/archive/'' @ rv @ ''.tar.gz''
      = ''https://'' @ (domain @ CHR ''/'' # (owner @ CHR ''/'' # (repo @ CHR ''/'' #
              (''archive/'' @ (rv @ ''.tar.gz'')))))"
    by simp
  show ?thesis
    unfolding replace_tarball_def e lockableHTTPTarballProtocol_match[OF assms]
    by simp
qed

subsection \<open>Evaluation of the concrete graph\<close>

lemma flake_lock_parsed: "NixFlakeLock_safeParse flake_lock = Some parsed_flake_lock"
  by code_simp

lemma flake_lock_sibling:
  "extractPackageFile_sibling flake_lock ''flake.lock'' =
     Inr (Some \<lparr>deps = [gh_record, g_record]\<rparr>, flake_lock_log)"
  by code_simp

lemma flake_lock_inline:
  "extractPackageFile_inline flake_lock ''flake.lock'' =
     Inr (Some \<lparr>deps = [gh_record, g_record]\<rparr>, flake_lock_log)"
  by code_simp

section \<open>The claims\<close>

text \<open>
  C1 says that a node locked as tarball whose original url matches the pattern yields a
  record with the rewritten url as \<^verbatim>\<open>packageName\<close> and \<^verbatim>\<open>locked.ref\<close> as \<^verbatim>\<open>currentValue\<close>.
  On the lock graph \<open>tarball_lock\<close>, whose input \<open>src\<close> has the original url
  \<^verbatim>\<open>https://example.org/o/r/archive/deadbeef.tar.gz\<close>: \<^verbatim>\<open>InputType\<close> has no \<^verbatim>\<open>tarball\<close>, so
  the schema refuses the whole graph and the function returns \<^verbatim>\<open>null\<close> with the
  invalid-file error; the tarball case of the switch, handed the node, builds the record
  with \<^verbatim>\<open>packageName\<close> \<^verbatim>\<open>https://example.org/o/r\<close> and \<^verbatim>\<open>currentValue\<close> \<^verbatim>\<open>locked.ref\<close>.
\<close>

theorem tarball_graph_rejected:
  "NixFlakeLock_safeParse tarball_lock = None
   \<and> extractPackageFile_sibling tarball_lock ''flake.lock'' =
       Inr (None, [(LTrace, Msg_extractPackageFile ''flake.lock''),
                   (LError, Msg_invalid_flake_lock)])
   \<and> classify_sibling ''src'' (parsed_locked ''tarball'') parsed_tarball_original =
       Some \<lparr>depName = ''src'', currentValue = Some ''v1'', currentDigest = ''abc123'',
             replaceString = ''abc123'', datasource = GitRefsDatasource_id,
             packageName = Some ''https://example.org/o/r''\<rparr>"
  by code_simp

text \<open>
  C2 says that a github, gitlab or sourcehut node gets the host of its original when the
  original carries one, and the default host otherwise. On the lock graph
  \<open>custom_host_lock\<close>, whose github input has \<^verbatim>\<open>host: git.example.org\<close> in its original:
  \<^verbatim>\<open>OriginalInput\<close> does not name \<^verbatim>\<open>host\<close>, the parsed original has lost it, and the record
  emitted names \<^verbatim>\<open>github.com\<close>; the switch, handed an original that has the host, uses it.
\<close>

theorem original_host_ignored:
  "extractPackageFile_sibling custom_host_lock ''flake.lock'' =
     Inr (Some \<lparr>deps = [\<lparr>depName = ''dep'', currentValue = Some ''main'',
                          currentDigest = ''abc123'', replaceString = ''abc123'',
                          datasource = GitRefsDatasource_id,
                          packageName = Some ''https://github.com/foo/bar''\<rparr>]\<rparr>,
          [(LTrace, Msg_extractPackageFile ''flake.lock'')])
   \<and> classify_sibling ''dep'' (parsed_locked ''github'')
        (parsed_github_original\<lparr>original_host := Some ''git.example.org''\<rparr>) =
       Some \<lparr>depName = ''dep'', currentValue = Some ''main'', currentDigest = ''abc123'',
             replaceString = ''abc123'', datasource = GitRefsDatasource_id,
             packageName = Some ''https://git.example.org/foo/bar''\<rparr>"
  by code_simp

text \<open>
  C3 says that the branch taken depends on \<^verbatim>\<open>locked.type\<close> alone, so that a node locked as
  git gets the git record whatever its original type. On the lock graph
  \<open>git_locked_lock\<close>, whose input is locked as git while its original says github: handed
  the content, the function tests \<^verbatim>\<open>flakeOriginal.type === 'git'\<close>, finds no branch and logs
  the locked type git as unknown; reading the sibling file, it switches on
  \<^verbatim>\<open>flakeLocked.type\<close> and emits the git record.
\<close>

theorem inline_git_branch_reads_original_type:
  "extractPackageFile_inline git_locked_lock ''flake.lock'' =
     Inr (None, [(LTrace, Msg_extractPackageFile ''flake.lock''),
                 (LDebug, Msg_unknown_type ''git'')])
   \<and> extractPackageFile_sibling git_locked_lock ''flake.lock'' =
     Inr (Some \<lparr>deps = [\<lparr>depName = ''dep'', currentValue = Some ''main'',
                          currentDigest = ''abc123'', replaceString = ''abc123'',
                          datasource = GitRefsDatasource_id,
                          packageName = None\<rparr>]\<rparr>,
          [(LTrace, Msg_extractPackageFile ''flake.lock'')])"
  by code_simp

text \<open>
  C4 says that, reading the sibling file, the function returns a value for every graph
  the schema accepts, also when no node is named root. On the lock graph \<open>no_root_lock\<close>,
  which the schema accepts and which has one input and no node named root: reading the
  sibling file, the function throws at \<^verbatim>\<open>flakeLock.nodes['root'].inputs\<close> on the first node;
  handed the content, it returns the record of the input.
\<close>

theorem missing_root_node_throws:
  "NixFlakeLock_safeParse no_root_lock =
     Some \<lparr>nodes = [(''dep'', parsed_gh_node)], root = ''root'', version = 7\<rparr>
   \<and> extractPackageFile_sibling no_root_lock ''flake.lock'' =
       Inl (TypeError ''Cannot read properties of undefined (reading 'inputs')'')
   \<and> extractPackageFile_inline no_root_lock ''flake.lock'' =
       Inr (Some \<lparr>deps = [\<lparr>depName = ''dep'', currentValue = Some ''main'',
                            currentDigest = ''abc123'', replaceString = ''abc123'',
                            datasource = GitRefsDatasource_id,
                            packageName = Some ''https://github.com/foo/bar''\<rparr>]\<rparr>,
            [(LTrace, Msg_extractPackageFile ''flake.lock'')])"
  by code_simp

text \<open>
  C5 says that the root node of an accepted graph never has a record in the output. The
  graph names its root node in the field \<^verbatim>\<open>root\<close>, which the schema lets be any string and
  which neither function reads: both pass over the key that equals the literal \<^verbatim>\<open>root\<close>.
  In \<open>named_root_lock\<close> the root node is \<open>main\<close>, and handed the content the function
  emits a record for it.
\<close>

theorem designated_root_node_emitted:
  "NixFlakeLock_safeParse named_root_lock = Some parsed_named_root_lock
   \<and> root parsed_named_root_lock = ''main''
   \<and> extractPackageFile_inline named_root_lock ''flake.lock'' =
       Inr (Some \<lparr>deps = [main_record, gh_record]\<rparr>,
            [(LTrace, Msg_extractPackageFile ''flake.lock'')])
   \<and> depName main_record = ''main''"
  by code_simp

text \<open>
  C5, amended: whatever value either function is given, no record of its output carries
  the name \<^verbatim>\<open>root\<close>; the node under the literal key \<^verbatim>\<open>root\<close> is passed over before any of
  its fields is read, whatever they hold.
\<close>

theorem root_node_never_emitted:
  "(extractPackageFile_sibling content f = Inr (Some pfc, logs)
      \<longrightarrow> (\<forall>d \<in> set (deps pfc). depName d \<noteq> ''root''))
   \<and> (extractPackageFile_inline content f = Inr (Some pfc', logs')
      \<longrightarrow> (\<forall>d \<in> set (deps pfc'). depName d \<noteq> ''root''))"
  using extract_sibling_origin extract_inline_origin by blast

text \<open>
  In \<open>flake_lock\<close> the root node has the locked and original data of a github input, which
  the switch would turn into a record; the output holds the records of \<open>gh\<close> and \<open>g\<close> only.
\<close>

theorem root_node_never_emitted_witness:
  "map_of (nodes parsed_flake_lock) ''root'' = Some parsed_root_node
   \<and> classify_sibling ''root'' (parsed_locked ''github'') parsed_github_original \<noteq> None
   \<and> extractPackageFile_sibling flake_lock ''flake.lock'' =
       Inr (Some \<lparr>deps = [gh_record, g_record]\<rparr>, flake_lock_log)
   \<and> extractPackageFile_inline flake_lock ''flake.lock'' =
       Inr (Some \<lparr>deps = [gh_record, g_record]\<rparr>, flake_lock_log)
   \<and> depName gh_record \<noteq> ''root'' \<and> depName g_record \<noteq> ''root''"
proof -
  have n: "map_of (nodes parsed_flake_lock) ''root'' = Some parsed_root_node"
    by code_simp
  have c: "classify_sibling ''root'' (parsed_locked ''github'') parsed_github_original \<noteq> None"
    by code_simp
  from root_node_never_emitted[of flake_lock "''flake.lock''"] flake_lock_sibling flake_lock_inline
  have "depName gh_record \<noteq> ''root'' \<and> depName g_record \<noteq> ''root''"
    by simp
  with n c flake_lock_sibling flake_lock_inline show ?thesis by simp
qed

text \<open>
  C6. Handed the lock content, the function answers a graph the schema accepts and whose
  version is not 7 with \<^verbatim>\<open>null\<close>, and the log holds the trace entry and the
  unsupported-version entry only: the loop over the nodes is not entered.
\<close>

theorem inline_unsupported_version:
  assumes "NixFlakeLock_safeParse content = Some flakeLock" and "version flakeLock \<noteq> 7"
  shows "extractPackageFile_inline content packageFile =
           Inr (None, [(LTrace, Msg_extractPackageFile packageFile),
                       (LDebug, Msg_unsupported_version)])"
  using assms by (simp add: extractPackageFile_inline_def Let_def)

text \<open>
  The graph of \<open>flake_lock\<close> with version 6: the function that reads the sibling file
  still extracts both records, the one handed the content returns \<^verbatim>\<open>null\<close>.
\<close>

theorem inline_unsupported_version_witness:
  "NixFlakeLock_safeParse (flake_lock_version 6) = Some (parsed_flake_lock_version 6)
   \<and> version (parsed_flake_lock_version 6) \<noteq> 7
   \<and> extractPackageFile_sibling (flake_lock_version 6) ''flake.lock'' =
       Inr (Some \<lparr>deps = [gh_record, g_record]\<rparr>, flake_lock_log)
   \<and> extractPackageFile_inline (flake_lock_version 6) ''flake.lock'' =
       Inr (None, [(LTrace, Msg_extractPackageFile ''flake.lock''),
                   (LDebug, Msg_unsupported_version)])"
proof -
  have p: "NixFlakeLock_safeParse (flake_lock_version 6) = Some (parsed_flake_lock_version 6)"
    by code_simp
  have v: "version (parsed_flake_lock_version 6) \<noteq> 7"
    by (simp add: parsed_flake_lock_version_def)
  have s: "extractPackageFile_sibling (flake_lock_version 6) ''flake.lock'' =
       Inr (Some \<lparr>deps = [gh_record, g_record]\<rparr>, flake_lock_log)"
    by code_simp
  from p v s inline_unsupported_version[OF p v, of "''flake.lock''"] show ?thesis by simp
qed

text \<open>
  C7. In a graph the schema accepts, a node whose original type is indirect has no record
  in the output of either function. The skip is a \<^verbatim>\<open>continue\<close>: the function handed the
  content always returns, the one reading the sibling file returns whenever the graph has
  a node named root, and every node that arrives at the switch and falls in one of its
  cases has its record in the output.
\<close>

theorem indirect_node_skipped:
  assumes "NixFlakeLock_safeParse content = Some fl"
    and "map_of (nodes fl) dn = Some n"
    and "original n = Some oi"
    and "original_type oi = ''indirect''"
  shows "(\<forall>pfc logs. extractPackageFile_sibling content f = Inr (Some pfc, logs)
            \<longrightarrow> (\<forall>d \<in> set (deps pfc). depName d \<noteq> dn))
       \<and> (\<forall>pfc logs. extractPackageFile_inline content f = Inr (Some pfc, logs)
            \<longrightarrow> (\<forall>d \<in> set (deps pfc). depName d \<noteq> dn))
       \<and> (\<forall>rn. map_of (nodes fl) ''root'' = Some rn
            \<longrightarrow> (\<exists>r. extractPackageFile_sibling content f = Inr r))
       \<and> (\<exists>r. extractPackageFile_inline content f = Inr r)
       \<and> (\<forall>dn' rn ri n' l' oi' d'.
            dn' \<noteq> ''root'' \<and> map_of (nodes fl) ''root'' = Some rn \<and> inputs rn = Some ri
            \<and> js_in dn' ri \<and> map_of (nodes fl) dn' = Some n' \<and> locked n' = Some l'
            \<and> original n' = Some oi' \<and> original_type oi' \<noteq> ''indirect''
            \<and> classify_sibling dn' l' oi' = Some d'
            \<longrightarrow> (\<exists>ds logs. extractPackageFile_sibling content f = Inr (Some \<lparr>deps = ds\<rparr>, logs)
                   \<and> d' \<in> set ds))
       \<and> (\<forall>dn' n' l' oi' d'.
            version fl = 7 \<and> dn' \<noteq> ''root'' \<and> map_of (nodes fl) dn' = Some n'
            \<and> locked n' = Some l' \<and> original n' = Some oi' \<and> original_type oi' \<noteq> ''indirect''
            \<and> classify_inline dn' l' oi' = Some d'
            \<longrightarrow> (\<exists>ds logs. extractPackageFile_inline content f = Inr (Some \<lparr>deps = ds\<rparr>, logs)
                   \<and> d' \<in> set ds))"
proof (intro conjI allI impI ballI)
  fix pfc logs d
  assume e: "extractPackageFile_sibling content f = Inr (Some pfc, logs)" and d: "d \<in> set (deps pfc)"
  show "depName d \<noteq> dn"
  proof
    assume "depName d = dn"
    with extract_sibling_origin[OF e d] assms show False by auto
  qed
next
  fix pfc logs d
  assume e: "extractPackageFile_inline content f = Inr (Some pfc, logs)" and d: "d \<in> set (deps pfc)"
  show "depName d \<noteq> dn"
  proof
    assume "depName d = dn"
    with extract_inline_origin[OF e d] assms show False by auto
  qed
next
  fix rn assume "map_of (nodes fl) ''root'' = Some rn"
  with assms(1) show "\<exists>r. extractPackageFile_sibling content f = Inr r"
    by (rule extract_sibling_total)
next
  show "\<exists>r. extractPackageFile_inline content f = Inr r"
    by (rule extract_inline_total)
next
  fix dn' rn ri n' l' oi' d'
  assume "dn' \<noteq> ''root'' \<and> map_of (nodes fl) ''root'' = Some rn \<and> inputs rn = Some ri
            \<and> js_in dn' ri \<and> map_of (nodes fl) dn' = Some n' \<and> locked n' = Some l'
            \<and> original n' = Some oi' \<and> original_type oi' \<noteq> ''indirect''
            \<and> classify_sibling dn' l' oi' = Some d'"
  with assms(1) show "\<exists>ds logs. extractPackageFile_sibling content f = Inr (Some \<lparr>deps = ds\<rparr>, logs)
                   \<and> d' \<in> set ds"
    using extract_sibling_emit by blast
next
  fix dn' n' l' oi' d'
  assume "version fl = 7 \<and> dn' \<noteq> ''root'' \<and> map_of (nodes fl) dn' = Some n'
            \<and> locked n' = Some l' \<and> original n' = Some oi' \<and> original_type oi' \<noteq> ''indirect''
            \<and> classify_inline dn' l' oi' = Some d'"
  with assms(1) show "\<exists>ds logs. extractPackageFile_inline content f = Inr (Some \<lparr>deps = ds\<rparr>, logs)
                   \<and> d' \<in> set ds"
    using extract_inline_emit by blast
qed

text \<open>In \<open>flake_lock\<close> the node \<open>reg\<close> is indirect; \<open>gh\<close> and \<open>g\<close> keep their records.\<close>

theorem indirect_node_skipped_witness:
  "NixFlakeLock_safeParse flake_lock = Some parsed_flake_lock
   \<and> map_of (nodes parsed_flake_lock) ''reg'' = Some parsed_reg_node
   \<and> original parsed_reg_node = Some parsed_indirect_original
   \<and> original_type parsed_indirect_original = ''indirect''
   \<and> extractPackageFile_sibling flake_lock ''flake.lock'' =
       Inr (Some \<lparr>deps = [gh_record, g_record]\<rparr>, flake_lock_log)
   \<and> extractPackageFile_inline flake_lock ''flake.lock'' =
       Inr (Some \<lparr>deps = [gh_record, g_record]\<rparr>, flake_lock_log)
   \<and> depName gh_record \<noteq> ''reg'' \<and> depName g_record \<noteq> ''reg''"
proof -
  have n: "map_of (nodes parsed_flake_lock) ''reg'' = Some parsed_reg_node"
    by code_simp
  have o: "original parsed_reg_node = Some parsed_indirect_original"
    by (simp add: parsed_reg_node_def)
  have t: "original_type parsed_indirect_original = ''indirect''"
    by (simp add: parsed_indirect_original_def)
  from indirect_node_skipped[OF flake_lock_parsed n o t, of "''flake.lock''"] flake_lock_sibling
  have "depName gh_record \<noteq> ''reg'' \<and> depName g_record \<noteq> ''reg''"
    by simp
  with flake_lock_parsed n o t flake_lock_sibling flake_lock_inline show ?thesis by simp
qed

text \<open>
  C8. In a graph the schema accepts, a node without \<^verbatim>\<open>locked\<close> or without \<^verbatim>\<open>original\<close> has
  no record in the output of either function, and the other nodes are not affected: the
  function handed the content always returns, the one reading the sibling file returns
  whenever the graph has a node named root, and every node that arrives at the switch and
  falls in one of its cases has its record in the output.
\<close>

theorem empty_node_skipped:
  assumes "NixFlakeLock_safeParse content = Some fl"
    and "map_of (nodes fl) dn = Some n"
    and "locked n = None \<or> original n = None"
  shows "(\<forall>pfc logs. extractPackageFile_sibling content f = Inr (Some pfc, logs)
            \<longrightarrow> (\<forall>d \<in> set (deps pfc). depName d \<noteq> dn))
       \<and> (\<forall>pfc logs. extractPackageFile_inline content f = Inr (Some pfc, logs)
            \<longrightarrow> (\<forall>d \<in> set (deps pfc). depName d \<noteq> dn))
       \<and> (\<forall>rn. map_of (nodes fl) ''root'' = Some rn
            \<longrightarrow> (\<exists>r. extractPackageFile_sibling content f = Inr r))
       \<and> (\<exists>r. extractPackageFile_inline content f = Inr r)
       \<and> (\<forall>dn' rn ri n' l' oi' d'.
            dn' \<noteq> ''root'' \<and> map_of (nodes fl) ''root'' = Some rn \<and> inputs rn = Some ri
            \<and> js_in dn' ri \<and> map_of (nodes fl) dn' = Some n' \<and> locked n' = Some l'
            \<and> original n' = Some oi' \<and> original_type oi' \<noteq> ''indirect''
            \<and> classify_sibling dn' l' oi' = Some d'
            \<longrightarrow> (\<exists>ds logs. extractPackageFile_sibling content f = Inr (Some \<lparr>deps = ds\<rparr>, logs)
                   \<and> d' \<in> set ds))
       \<and> (\<forall>dn' n' l' oi' d'.
            version fl = 7 \<and> dn' \<noteq> ''root'' \<and> map_of (nodes fl) dn' = Some n'
            \<and> locked n' = Some l' \<and> original n' = Some oi' \<and> original_type oi' \<noteq> ''indirect''
            \<and> classify_inline dn' l' oi' = Some d'
            \<longrightarrow> (\<exists>ds logs. extractPackageFile_inline content f = Inr (Some \<lparr>deps = ds\<rparr>, logs)
                   \<and> d' \<in> set ds))"
proof (intro conjI allI impI ballI)
  fix pfc logs d
  assume e: "extractPackageFile_sibling content f = Inr (Some pfc, logs)" and d: "d \<in> set (deps pfc)"
  show "depName d \<noteq> dn"
  proof
    assume "depName d = dn"
    with extract_sibling_origin[OF e d] assms show False by auto
  qed
next
  fix pfc logs d
  assume e: "extractPackageFile_inline content f = Inr (Some pfc, logs)" and d: "d \<in> set (deps pfc)"
  show "depName d \<noteq> dn"
  proof
    assume "depName d = dn"
    with extract_inline_origin[OF e d] assms show False by auto
  qed
next
  fix rn assume "map_of (nodes fl) ''root'' = Some rn"
  with assms(1) show "\<exists>r. extractPackageFile_sibling content f = Inr r"
    by (rule extract_sibling_total)
next
  show "\<exists>r. extractPackageFile_inline content f = Inr r"
    by (rule extract_inline_total)
next
  fix dn' rn ri n' l' oi' d'
  assume "dn' \<noteq> ''root'' \<and> map_of (nodes fl) ''root'' = Some rn \<and> inputs rn = Some ri
            \<and> js_in dn' ri \<and> map_of (nodes fl) dn' = Some n' \<and> locked n' = Some l'
            \<and> original n' = Some oi' \<and> original_type oi' \<noteq> ''indirect''
            \<and> classify_sibling dn' l' oi' = Some d'"
  with assms(1) show "\<exists>ds logs. extractPackageFile_sibling content f = Inr (Some \<lparr>deps = ds\<rparr>, logs)
                   \<and> d' \<in> set ds"
    using extract_sibling_emit by blast
next
  fix dn' n' l' oi' d'
  assume "version fl = 7 \<and> dn' \<noteq> ''root'' \<and> map_of (nodes fl) dn' = Some n'
            \<and> locked n' = Some l' \<and> original n' = Some oi' \<and> original_type oi' \<noteq> ''indirect''
            \<and> classify_inline dn' l' oi' = Some d'"
  with assms(1) show "\<exists>ds logs. extractPackageFile_inline content f = Inr (Some \<lparr>deps = ds\<rparr>, logs)
                   \<and> d' \<in> set ds"
    using extract_inline_emit by blast
qed

text \<open>In \<open>flake_lock\<close> the node \<open>empty\<close> has neither field; \<open>gh\<close> and \<open>g\<close> keep their records.\<close>

theorem empty_node_skipped_witness:
  "NixFlakeLock_safeParse flake_lock = Some parsed_flake_lock
   \<and> map_of (nodes parsed_flake_lock) ''empty'' = Some parsed_empty_node
   \<and> (locked parsed_empty_node = None \<or> original parsed_empty_node = None)
   \<and> extractPackageFile_sibling flake_lock ''flake.lock'' =
       Inr (Some \<lparr>deps = [gh_record, g_record]\<rparr>, flake_lock_log)
   \<and> extractPackageFile_inline flake_lock ''flake.lock'' =
       Inr (Some \<lparr>deps = [gh_record, g_record]\<rparr>, flake_lock_log)
   \<and> depName gh_record \<noteq> ''empty'' \<and> depName g_record \<noteq> ''empty''"
proof -
  have n: "map_of (nodes parsed_flake_lock) ''empty'' = Some parsed_empty_node"
    by code_simp
  have a: "locked parsed_empty_node = None \<or> original parsed_empty_node = None"
    by (simp add: parsed_empty_node_def)
  from empty_node_skipped[OF flake_lock_parsed n a, of "''flake.lock''"] flake_lock_inline
  have "depName gh_record \<noteq> ''empty'' \<and> depName g_record \<noteq> ''empty''"
    by simp
  with flake_lock_parsed n a flake_lock_sibling flake_lock_inline show ?thesis by simp
qed




text \<open>
  C10. In a graph the schema accepts, a node other than root with locked type git, an
  original that is not indirect and has no url is not skipped: its record \<open>r\<close> is in the
  output, with the node key as \<^verbatim>\<open>depName\<close>, \<^verbatim>\<open>locked.rev\<close> as digest and replace string,
  and no \<^verbatim>\<open>packageName\<close>. This holds reading the sibling file when the node is among the
  inputs of root, and handed the content when the version is 7 and the original type is
  git, the test that version makes.
\<close>

theorem git_node_without_url:
  assumes "NixFlakeLock_safeParse content = Some fl"
    and "dn \<noteq> ''root''"
    and "map_of (nodes fl) dn = Some n"
    and "locked n = Some l"
    and "locked_type l = ''git''"
    and "original n = Some oi"
    and "original_type oi \<noteq> ''indirect''"
    and "original_url oi = None"
    and "r = \<lparr>depName = dn, currentValue = original_ref oi, currentDigest = locked_rev l,
              replaceString = locked_rev l, datasource = GitRefsDatasource_id,
              packageName = None\<rparr>"
  shows "(\<forall>rn ri. map_of (nodes fl) ''root'' = Some rn \<and> inputs rn = Some ri \<and> js_in dn ri
            \<longrightarrow> (\<exists>ds logs. extractPackageFile_sibling content f = Inr (Some \<lparr>deps = ds\<rparr>, logs)
                   \<and> r \<in> set ds))
       \<and> (version fl = 7 \<and> original_type oi = ''git''
            \<longrightarrow> (\<exists>ds logs. extractPackageFile_inline content f = Inr (Some \<lparr>deps = ds\<rparr>, logs)
                   \<and> r \<in> set ds))"
proof (intro conjI allI impI)
  have cs: "classify_sibling dn l oi = Some r"
    using assms(5,8,9) by (simp add: classify_sibling_def)
  fix rn ri
  assume "map_of (nodes fl) ''root'' = Some rn \<and> inputs rn = Some ri \<and> js_in dn ri"
  with extract_sibling_emit[OF assms(1,2) _ _ _ assms(3,4,6,7) cs, of rn ri f]
  show "\<exists>ds logs. extractPackageFile_sibling content f = Inr (Some \<lparr>deps = ds\<rparr>, logs) \<and> r \<in> set ds"
    by blast
next
  assume a: "version fl = 7 \<and> original_type oi = ''git''"
  then have ci: "classify_inline dn l oi = Some r"
    using assms(5,8,9) by (simp add: classify_inline_def)
  from a have v: "version fl = 7" by simp
  from extract_inline_emit[OF assms(1) v assms(2,3,4,6,7) ci]
  show "\<exists>ds logs. extractPackageFile_inline content f = Inr (Some \<lparr>deps = ds\<rparr>, logs) \<and> r \<in> set ds" .
qed

text \<open>The node \<open>g\<close> of \<open>flake_lock\<close>.\<close>

theorem git_node_without_url_witness:
  "NixFlakeLock_safeParse flake_lock = Some parsed_flake_lock
   \<and> map_of (nodes parsed_flake_lock) ''g'' = Some parsed_g_node
   \<and> locked parsed_g_node = Some (parsed_locked ''git'')
   \<and> locked_type (parsed_locked ''git'') = ''git''
   \<and> original parsed_g_node = Some parsed_git_original
   \<and> original_type parsed_git_original = ''git''
   \<and> original_url parsed_git_original = None
   \<and> map_of (nodes parsed_flake_lock) ''root'' = Some parsed_root_node
   \<and> inputs parsed_root_node = Some parsed_root_inputs
   \<and> js_in ''g'' parsed_root_inputs
   \<and> version parsed_flake_lock = 7
   \<and> (\<exists>ds logs. extractPackageFile_sibling flake_lock ''flake.lock'' = Inr (Some \<lparr>deps = ds\<rparr>, logs)
         \<and> g_record \<in> set ds)
   \<and> (\<exists>ds logs. extractPackageFile_inline flake_lock ''flake.lock'' = Inr (Some \<lparr>deps = ds\<rparr>, logs)
         \<and> g_record \<in> set ds)
   \<and> packageName g_record = None"
proof -
  have rn: "map_of (nodes parsed_flake_lock) ''root'' = Some parsed_root_node"
    by code_simp
  have ri: "inputs parsed_root_node = Some parsed_root_inputs"
    by (simp add: parsed_root_node_def)
  have j: "js_in ''g'' parsed_root_inputs"
    by code_simp
  have n: "map_of (nodes parsed_flake_lock) ''g'' = Some parsed_g_node"
    by code_simp
  have l: "locked parsed_g_node = Some (parsed_locked ''git'')"
    and o: "original parsed_g_node = Some parsed_git_original"
    by (simp_all add: parsed_g_node_def)
  have lt: "locked_type (parsed_locked ''git'') = ''git''"
    by (simp add: parsed_locked_def)
  have ot: "original_type parsed_git_original = ''git''"
    and ou: "original_url parsed_git_original = None"
    by (simp_all add: parsed_git_original_def)
  have v: "version parsed_flake_lock = 7"
    by (simp add: parsed_flake_lock_def parsed_flake_lock_version_def)
  have p: "packageName g_record = None"
    by (simp add: g_record_def)
  have c: "(\<forall>rn ri. map_of (nodes parsed_flake_lock) ''root'' = Some rn \<and> inputs rn = Some ri
              \<and> js_in ''g'' ri
            \<longrightarrow> (\<exists>ds logs. extractPackageFile_sibling flake_lock ''flake.lock'' = Inr (Some \<lparr>deps = ds\<rparr>, logs)
                   \<and> g_record \<in> set ds))
       \<and> (version parsed_flake_lock = 7 \<and> original_type parsed_git_original = ''git''
            \<longrightarrow> (\<exists>ds logs. extractPackageFile_inline flake_lock ''flake.lock'' = Inr (Some \<lparr>deps = ds\<rparr>, logs)
                   \<and> g_record \<in> set ds))"
    by (rule git_node_without_url[OF flake_lock_parsed _ n l lt o _ ou])
       (simp_all add: parsed_locked_def parsed_git_original_def g_record_def)
  from c rn ri j v ot have
    "(\<exists>ds logs. extractPackageFile_sibling flake_lock ''flake.lock'' = Inr (Some \<lparr>deps = ds\<rparr>, logs)
         \<and> g_record \<in> set ds)
     \<and> (\<exists>ds logs. extractPackageFile_inline flake_lock ''flake.lock'' = Inr (Some \<lparr>deps = ds\<rparr>, logs)
         \<and> g_record \<in> set ds)"
    by blast
  with flake_lock_parsed n l lt o ot ou rn ri j v p show ?thesis by blast
qed

end
